theory Spec2Isabelle
  imports
    Main
    Complex_Main
    "HOL-Library.Word"
    "HOL-Library.Signed_Division"
    "HOL-Library.AList"
    "HOL-Library.Multiset"
begin

section \<open>Machine integers and formatting\<close>

text \<open>
  Go's \<open>int64\<close> is a 64-bit word read as two's complement. \<open>+\<close> and \<open>*\<close> wrap around.
  Go's \<open>/\<close> on integers truncates towards zero, and the quotient of the most negative
  value by \<open>-1\<close> wraps to the most negative value; division by zero panics, and the
  program only divides by a window length it has checked to be nonzero and by the
  constant 2.
\<close>

type_synonym int64 = "64 word"

definition go_div :: "int64 \<Rightarrow> int64 \<Rightarrow> int64" where
  "go_div a b = word_of_int (sint a sdiv sint b)"

text \<open>\<open>fmt.Sprintf("%d", n)\<close>: the decimal digits of \<open>n\<close>, with a minus sign when negative.\<close>

fun digits10 :: "nat \<Rightarrow> string" where
  "digits10 n =
     (if n < 10 then [''0123456789'' ! n]
      else digits10 (n div 10) @ [''0123456789'' ! (n mod 10)])"

declare digits10.simps [simp del]

definition Sprintf_d :: "int \<Rightarrow> string" where
  "Sprintf_d i = (if i < 0 then CHR ''-'' # digits10 (nat (- i)) else digits10 (nat i))"

section \<open>Data model\<close>

text \<open>
  \<open>time.Duration\<close> is an \<open>int64\<close> count of nanoseconds; \<open>time.Minute\<close> is
  \<open>60 * 10^9\<close>. \<open>Workers\<close> is a Go \<open>int\<close>; it is only compared with 0 and sized into a
  channel, so it is an unbounded \<open>int\<close> here.
\<close>

definition Second :: int64 where
  "Second = 1000000000"

definition Minute :: int64 where
  "Minute = 60 * Second"

record Config =
  TimestampField :: string
  ValueFields :: "string list"
  GroupByFields :: "string list"
  AggregationMethod :: string
  TimeWindow :: int64
  UniqueFields :: "string list"
  Workers :: int

record Compressor =
  config :: Config

record 'f Group =
  Window :: int64
  Tags :: "(string \<times> string) list"
  Values :: "'f list"
  Count :: int
  FirstTime :: int64
  LastTime :: int64

text \<open>
  The values an output object holds (\<open>map[string]interface{}\<close>): an \<open>int64\<close> timestamp,
  a \<open>float64\<close> aggregate, or a tag string. A Go map from strings is an association list
  with distinct keys, written with \<open>AList.update\<close> and read with \<open>map_of\<close>.
\<close>

datatype 'f iface = VInt int64 | VFloat 'f | VStr string

type_synonym 'f obj = "(string \<times> 'f iface) list"

datatype error = InputFormatError | SerializationError

section \<open>The libraries the compressor calls\<close>

text \<open>
  The compressor decodes with \<open>github.com/tidwall/gjson\<close>, encodes with
  \<open>encoding/json\<close> and converts the window with \<open>time.Duration.Seconds\<close>. None of them
  is part of this repository, so they are parameters: \<open>'b\<close> is a byte payload, \<open>'v\<close> a
  \<open>gjson.Result\<close> that exists, \<open>'f\<close> is \<open>float64\<close>.

  \<^item> \<open>Get v field\<close> is \<open>None\<close> for the \<open>Result\<close> whose \<open>Exists()\<close> is false;
  \<^item> \<open>ForEach v\<close> lists the values the iteration passes to its callback, in order (the
    callback of \<open>CompressJSON\<close> always returns \<open>true\<close>, so none is cut off);
  \<^item> \<open>Marshal\<close> is \<open>json.Marshal\<close>, which fails on a \<open>float64\<close> that is NaN or infinite;
  \<^item> \<open>Seconds\<close> is \<open>time.Duration.Seconds\<close> and \<open>to_int64\<close> the conversion \<open>int64(f)\<close>;
  \<^item> \<open>float64\<close> is the conversion of a length, \<open>float64(len(values))\<close>.
\<close>

record ('b, 'v, 'f) lib =
  ParseBytes :: "'b \<Rightarrow> 'v"
  IsArray :: "'v \<Rightarrow> bool"
  IsObject :: "'v \<Rightarrow> bool"
  ForEach :: "'v \<Rightarrow> 'v list"
  Get :: "'v \<Rightarrow> string \<Rightarrow> 'v option"
  Int_of :: "'v \<Rightarrow> int64"
  String_of :: "'v \<Rightarrow> string"
  Float_of :: "'v \<Rightarrow> 'f"
  Marshal :: "'f obj list \<Rightarrow> 'b option"
  Seconds :: "int64 \<Rightarrow> 'f"
  to_int64 :: "'f \<Rightarrow> int64"
  float64 :: "nat \<Rightarrow> 'f"

text \<open>\<open>Result.Int()\<close>: 0 on the \<open>Result\<close> that does not exist (gjson's default case).\<close>

definition Int_r :: "('b, 'v, 'f) lib \<Rightarrow> 'v option \<Rightarrow> int64" where
  "Int_r L r = (case r of None \<Rightarrow> 0 | Some x \<Rightarrow> Int_of L x)"

section \<open>Configuration\<close>

definition DefaultConfig :: Config where
  "DefaultConfig =
     \<lparr> TimestampField = ''timestamp'',
       ValueFields = [''value''],
       GroupByFields = [],
       AggregationMethod = ''sum'',
       TimeWindow = Minute,
       UniqueFields = [],
       Workers = 4 \<rparr>"

text \<open>\<open>NewCompressor\<close> takes a pointer: \<open>None\<close> is \<open>nil\<close>.\<close>

definition NewCompressor :: "Config option \<Rightarrow> Compressor" where
  "NewCompressor cfg =
     (let c0 = (case cfg of None \<Rightarrow> DefaultConfig | Some c \<Rightarrow> c);
          c1 = (if TimestampField c0 = '''' then c0\<lparr>TimestampField := ''timestamp''\<rparr> else c0);
          c2 = (if length (ValueFields c1) = 0 then c1\<lparr>ValueFields := [''value'']\<rparr> else c1);
          c3 = (if AggregationMethod c2 = '''' then c2\<lparr>AggregationMethod := ''sum''\<rparr> else c2);
          c4 = (if TimeWindow c3 = 0 then c3\<lparr>TimeWindow := Minute\<rparr> else c3);
          c5 = (if Workers c4 \<le> 0 then c4\<lparr>Workers := 4\<rparr> else c4)
      in \<lparr> config = c5 \<rparr>)"

section \<open>Aggregation\<close>

text \<open>
  \<open>float64\<close> is any type with a zero, an addition, a division and a comparison: no law of
  arithmetic is assumed of them, so what is proved for every such type holds of IEEE
  floats, NaN included.
\<close>

definition aggregate ::
  "('b, 'v, 'f::{zero,plus,inverse,ord}) lib \<Rightarrow> Compressor \<Rightarrow> 'f list \<Rightarrow> 'f" where
  "aggregate L c values =
     (if length values = 0 then 0
      else let m = AggregationMethod (config c) in
        if m = ''sum'' then foldl (\<lambda>sum v. sum + v) 0 values
        else if m = ''avg'' \<or> m = ''mean'' then
          foldl (\<lambda>sum v. sum + v) 0 values / float64 L (length values)
        else if m = ''min'' then
          foldl (\<lambda>minVal v. if v < minVal then v else minVal) (values ! 0) (drop 1 values)
        else if m = ''max'' then
          foldl (\<lambda>maxVal v. if v > maxVal then v else maxVal) (values ! 0) (drop 1 values)
        else if m = ''count'' then float64 L (length values)
        else if m = ''first'' then values ! 0
        else if m = ''last'' then values ! (length values - 1)
        else foldl (\<lambda>sum v. sum + v) 0 values)"

section \<open>The grouping engine\<close>

text \<open>
  The window length in whole seconds, \<open>int64(c.config.TimeWindow.Seconds())\<close>, replaced by
  60 when it is zero; and the window boundary of a timestamp.
\<close>

definition windowSec :: "('b, 'v, 'f) lib \<Rightarrow> Compressor \<Rightarrow> int64" where
  "windowSec L c =
     (let windowSec = to_int64 L (Seconds L (TimeWindow (config c)))
      in if windowSec = 0 then 60 else windowSec)"

definition window :: "('b, 'v, 'f) lib \<Rightarrow> Compressor \<Rightarrow> int64 \<Rightarrow> int64" where
  "window L c timestamp = go_div timestamp (windowSec L c) * windowSec L c"

text \<open>
  The group key: \<open>"window:%d"\<close>, then \<open>";%s:%s"\<close> for each group-by field that exists on
  the record, then \<open>";unique_%s:%s"\<close> for each unique field that exists.
\<close>

definition key_fields ::
  "('b, 'v, 'f) lib \<Rightarrow> 'v \<Rightarrow> string \<Rightarrow> string \<Rightarrow> string list \<Rightarrow> string" where
  "key_fields L val pre groupKey flds =
     foldl (\<lambda>groupKey field.
              case Get L val field of
                Some v \<Rightarrow> groupKey @ '';'' @ pre @ field @ '':'' @ String_of L v
              | None \<Rightarrow> groupKey)
       groupKey flds"

definition groupKey :: "('b, 'v, 'f) lib \<Rightarrow> Compressor \<Rightarrow> 'v \<Rightarrow> int64 \<Rightarrow> string" where
  "groupKey L c val w =
     key_fields L val ''unique_''
       (key_fields L val [] (''window:'' @ Sprintf_d (sint w)) (GroupByFields (config c)))
       (UniqueFields (config c))"

text \<open>The tags a new group captures from the record that creates it.\<close>

definition tag_fields ::
  "('b, 'v, 'f) lib \<Rightarrow> 'v \<Rightarrow> (string \<times> string) list \<Rightarrow> string list
     \<Rightarrow> (string \<times> string) list" where
  "tag_fields L val tags flds =
     foldl (\<lambda>tags field.
              case Get L val field of
                Some v \<Rightarrow> AList.update field (String_of L v) tags
              | None \<Rightarrow> tags)
       tags flds"

definition new_group ::
  "('b, 'v, 'f) lib \<Rightarrow> Compressor \<Rightarrow> 'v \<Rightarrow> int64 \<Rightarrow> int64 \<Rightarrow> 'f Group" where
  "new_group L c val w timestamp =
     \<lparr> Window = w,
       Tags = tag_fields L val (tag_fields L val [] (GroupByFields (config c)))
                (UniqueFields (config c)),
       Values = [],
       Count = 0,
       FirstTime = timestamp,
       LastTime = timestamp \<rparr>"

definition append_values ::
  "('b, 'v, 'f) lib \<Rightarrow> Compressor \<Rightarrow> 'v \<Rightarrow> 'f list \<Rightarrow> 'f list" where
  "append_values L c val vs =
     foldl (\<lambda>vs field.
              case Get L val field of
                Some v \<Rightarrow> vs @ [Float_of L v]
              | None \<Rightarrow> vs)
       vs (ValueFields (config c))"

text \<open>
  The callback of \<open>result.ForEach\<close>: one array element against the map of groups. The
  map \<open>map[string]*Group\<close> is an association list in order of insertion; a group found
  under its key is updated in place.
\<close>

definition callback ::
  "('b, 'v, 'f) lib \<Rightarrow> Compressor \<Rightarrow> (string \<times> 'f Group) list \<Rightarrow> 'v
     \<Rightarrow> (string \<times> 'f Group) list" where
  "callback L c groups val =
     (if \<not> IsObject L val then groups
      else let timestamp = Int_r L (Get L val (TimestampField (config c))) in
        if timestamp = 0 then groups
        else let w = window L c timestamp;
                 k = groupKey L c val w;
                 g0 = (case map_of groups k of
                         Some g \<Rightarrow> g
                       | None \<Rightarrow> new_group L c val w timestamp);
                 g1 = (if timestamp <s FirstTime g0 then g0\<lparr>FirstTime := timestamp\<rparr> else g0);
                 g2 = (if LastTime g1 <s timestamp then g1\<lparr>LastTime := timestamp\<rparr> else g1);
                 g3 = g2\<lparr>Values := append_values L c val (Values g2)\<rparr>;
                 g4 = g3\<lparr>Count := Count g3 + 1\<rparr>
             in AList.update k g4 groups)"

definition scan ::
  "('b, 'v, 'f) lib \<Rightarrow> Compressor \<Rightarrow> 'v list \<Rightarrow> (string \<times> 'f Group) list" where
  "scan L c elems = foldl (callback L c) [] elems"

text \<open>The output object of one group.\<close>

definition emit_timestamp :: "Compressor \<Rightarrow> 'f Group \<Rightarrow> int64" where
  "emit_timestamp c g =
     (let m = AggregationMethod (config c) in
      if m = ''first'' then FirstTime g
      else if m = ''last'' then LastTime g
      else go_div (FirstTime g + LastTime g) 2)"

definition value_name :: "Compressor \<Rightarrow> string" where
  "value_name c =
     (if length (ValueFields (config c)) = 1 then ValueFields (config c) ! 0 else ''value'')"

definition emit ::
  "('b, 'v, 'f::{zero,plus,inverse,ord}) lib \<Rightarrow> Compressor \<Rightarrow> 'f Group \<Rightarrow> 'f obj" where
  "emit L c g =
     (let aggregatedValue = aggregate L c (Values g);
          obj0 = AList.update (TimestampField (config c)) (VInt (emit_timestamp c g)) [];
          obj1 = AList.update (value_name c) (VFloat aggregatedValue) obj0
      in foldl (\<lambda>obj (k, v). AList.update k (VStr v) obj) obj1 (Tags g))"

text \<open>
  \<open>CompressJSON\<close>. Go leaves the order in which \<open>range\<close> enumerates a map unspecified;
  the groups are emitted here in order of insertion, and no theorem below depends on
  that order.
\<close>

definition outputs ::
  "('b, 'v, 'f::{zero,plus,inverse,ord}) lib \<Rightarrow> Compressor \<Rightarrow> 'v \<Rightarrow> 'f obj list" where
  "outputs L c result = map (\<lambda>(k, g). emit L c g) (scan L c (ForEach L result))"

definition CompressJSON ::
  "('b, 'v, 'f::{zero,plus,inverse,ord}) lib \<Rightarrow> Compressor \<Rightarrow> 'b \<Rightarrow> error + 'b" where
  "CompressJSON L c data =
     (let result = ParseBytes L data in
      if \<not> IsArray L result then Inl InputFormatError
      else case Marshal L (outputs L c result) of
             None \<Rightarrow> Inl SerializationError
           | Some bytes \<Rightarrow> Inr bytes)"

section \<open>The batch runner\<close>

text \<open>
  \<open>CompressBatch\<close> starts one goroutine per batch item; each compresses its own item and
  writes only its own slot of \<open>results\<close>, and the call returns after all of them are done.
  The goroutines share nothing else that is written, so a run is fixed by the order in
  which they finish: \<open>order\<close>, a list of the indices. A slot that is \<open>None\<close> is a \<open>nil\<close>
  slice.

  The permit channel is made with capacity \<open>Workers\<close>: \<open>make\<close> panics on a negative
  capacity, and with capacity 0 the first send blocks forever. Both are the result \<open>None\<close>.
\<close>

definition worker ::
  "('b, 'v, 'f::{zero,plus,inverse,ord}) lib \<Rightarrow> Compressor \<Rightarrow> 'b list
     \<Rightarrow> 'b option list \<Rightarrow> nat \<Rightarrow> 'b option list" where
  "worker L c batches results idx =
     (if idx < length batches then
        (case CompressJSON L c (batches ! idx) of
           Inr compressed \<Rightarrow> results[idx := Some compressed]
         | Inl err \<Rightarrow> results)
      else results)"

definition CompressBatch ::
  "('b, 'v, 'f::{zero,plus,inverse,ord}) lib \<Rightarrow> Compressor \<Rightarrow> nat list \<Rightarrow> 'b list
     \<Rightarrow> 'b option list option" where
  "CompressBatch L c order batches =
     (if Workers (config c) < 0 then None
      else if Workers (config c) = 0 \<and> batches \<noteq> [] then None
      else Some (foldl (worker L c batches) (replicate (length batches) None) order))"

section \<open>An instance of the libraries on decoded documents\<close>

text \<open>
  To run the definitions on concrete inputs, the libraries are instantiated on decoded
  documents: a payload is identified with the document it encodes, \<open>float64\<close> is
  \<open>real\<close>, and a field name is looked up as a plain key (the first occurrence, as gjson
  does). The instance does what gjson, \<open>encoding/json\<close> and \<open>time\<close> do on the documents
  evaluated in this theory: arrays of objects with plain field names, whose values are
  integral numbers within \<open>int64\<close> and strings that do not spell a number; durations
  whose seconds are exact in \<open>float64\<close>; sums and quotients of small integers, on which
  \<open>float64\<close> arithmetic is exact.
\<close>

datatype json =
  JNull | JBool bool | JNum real | JStr string | JArr "json list" | JObj "(string \<times> json) list"

definition trunc :: "real \<Rightarrow> int" where
  "trunc x = (if x < 0 then \<lceil>x\<rceil> else \<lfloor>x\<rfloor>)"

definition doc_IsArray :: "json \<Rightarrow> bool" where
  "doc_IsArray v = (case v of JArr xs \<Rightarrow> True | _ \<Rightarrow> False)"

definition doc_IsObject :: "json \<Rightarrow> bool" where
  "doc_IsObject v = (case v of JObj kvs \<Rightarrow> True | _ \<Rightarrow> False)"

definition doc_ForEach :: "json \<Rightarrow> json list" where
  "doc_ForEach v = (case v of JArr xs \<Rightarrow> xs | _ \<Rightarrow> [])"

definition doc_Get :: "json \<Rightarrow> string \<Rightarrow> json option" where
  "doc_Get v field = (case v of JObj kvs \<Rightarrow> map_of kvs field | _ \<Rightarrow> None)"

definition doc_Int :: "json \<Rightarrow> int64" where
  "doc_Int v =
     (case v of JNum x \<Rightarrow> word_of_int (trunc x) | JBool b \<Rightarrow> (if b then 1 else 0) | _ \<Rightarrow> 0)"

definition doc_String :: "json \<Rightarrow> string" where
  "doc_String v =
     (case v of
        JStr s \<Rightarrow> s
      | JNum x \<Rightarrow> Sprintf_d (trunc x)
      | JBool b \<Rightarrow> (if b then ''true'' else ''false'')
      | _ \<Rightarrow> [])"

definition doc_Float :: "json \<Rightarrow> real" where
  "doc_Float v = (case v of JNum x \<Rightarrow> x | JBool b \<Rightarrow> (if b then 1 else 0) | _ \<Rightarrow> 0)"

definition json_of_iface :: "real iface \<Rightarrow> json" where
  "json_of_iface v =
     (case v of VInt i \<Rightarrow> JNum (of_int (sint i)) | VFloat x \<Rightarrow> JNum x | VStr s \<Rightarrow> JStr s)"

definition doc_Marshal :: "real obj list \<Rightarrow> json option" where
  "doc_Marshal out = Some (JArr (map (\<lambda>obj. JObj (map (\<lambda>(k, v). (k, json_of_iface v)) obj)) out))"

definition doc_lib :: "(json, json, real) lib" where
  "doc_lib =
     \<lparr> ParseBytes = (\<lambda>data. data),
       IsArray = doc_IsArray,
       IsObject = doc_IsObject,
       ForEach = doc_ForEach,
       Get = doc_Get,
       Int_of = doc_Int,
       String_of = doc_String,
       Float_of = doc_Float,
       Marshal = doc_Marshal,
       Seconds = (\<lambda>d. of_int (sint d) / 1000000000),
       to_int64 = (\<lambda>x. word_of_int (trunc x)),
       float64 = (\<lambda>n. of_nat n) \<rparr>"

section \<open>The specification's resolver\<close>

text \<open>
  The configuration resolver as the specification words it, to be compared with
  \<open>NewCompressor\<close>: each zero-valued field is replaced by its documented default, every
  other field is kept.
\<close>

definition resolve_spec :: "Config \<Rightarrow> Config" where
  "resolve_spec c =
     \<lparr> TimestampField = (if TimestampField c = [] then ''timestamp'' else TimestampField c),
       ValueFields = (if ValueFields c = [] then [''value''] else ValueFields c),
       GroupByFields = GroupByFields c,
       AggregationMethod = (if AggregationMethod c = [] then ''sum'' else AggregationMethod c),
       TimeWindow = (if TimeWindow c = 0 then 60 * 1000000000 else TimeWindow c),
       UniqueFields = UniqueFields c,
       Workers = (if Workers c \<le> 0 then 4 else Workers c) \<rparr>"

section \<open>Notions of the specification\<close>

text \<open>
  A record the specification calls skipped for its timestamp: the configured timestamp
  field is absent, or its integer value is zero.
\<close>

definition no_timestamp :: "('b, 'v, 'f) lib \<Rightarrow> Compressor \<Rightarrow> 'v \<Rightarrow> bool" where
  "no_timestamp L c val =
     (case Get L val (TimestampField (config c)) of None \<Rightarrow> True | Some r \<Rightarrow> Int_of L r = 0)"

text \<open>
  The ordered tuple of the string values of a list of fields on a record, with which of
  the fields are present: \<open>None\<close> for a field the record does not have.
\<close>

definition field_tuple :: "('b, 'v, 'f) lib \<Rightarrow> 'v \<Rightarrow> string list \<Rightarrow> string option list" where
  "field_tuple L val flds = map (\<lambda>field. map_option (String_of L) (Get L val field)) flds"

section \<open>Configuration resolution\<close>

lemma NewCompressor_config: "config (NewCompressor (Some c)) = resolve_spec c"
  by (cases c) (simp add: resolve_spec_def NewCompressor_def Minute_def Second_def Let_def)

lemma NewCompressor_eq: "NewCompressor (Some c) = \<lparr> config = resolve_spec c \<rparr>"
  using NewCompressor_config [of c] by (cases "NewCompressor (Some c)") simp

lemma NewCompressor_None: "config (NewCompressor None) = DefaultConfig"
  by (simp add: NewCompressor_def DefaultConfig_def Let_def)

lemma resolve_spec_populated:
  "TimestampField c \<noteq> [] \<Longrightarrow> ValueFields c \<noteq> [] \<Longrightarrow> AggregationMethod c \<noteq> [] \<Longrightarrow>
   TimeWindow c \<noteq> 0 \<Longrightarrow> 0 < Workers c \<Longrightarrow> resolve_spec c = c"
  by (cases c) (simp add: resolve_spec_def)

lemma resolve_spec_idem: "resolve_spec (resolve_spec c) = resolve_spec c"
  by (rule resolve_spec_populated) (simp_all add: resolve_spec_def)

lemma Workers_NewCompressor: "0 < Workers (config (NewCompressor cfg))"
  by (cases cfg) (simp_all add: NewCompressor_None DefaultConfig_def NewCompressor_config
      resolve_spec_def)

text \<open>
  C9: \<open>NewCompressor\<close> replaces exactly the zero-valued fields of the configuration by
  their defaults (timestamp field \<open>timestamp\<close>, value fields \<open>[value]\<close>, method \<open>sum\<close>,
  window one minute, that is \<open>60 * 10^9\<close> nanoseconds, 4 workers for any count \<open>\<le> 0\<close>)
  and keeps the group-by and unique fields; a fully populated configuration is returned
  unchanged; resolving a resolved configuration changes nothing; and \<open>nil\<close> resolves to
  the default configuration.
\<close>

theorem NewCompressor_defaults:
  "config (NewCompressor (Some c)) =
     \<lparr> TimestampField = (if TimestampField c = [] then ''timestamp'' else TimestampField c),
       ValueFields = (if ValueFields c = [] then [''value''] else ValueFields c),
       GroupByFields = GroupByFields c,
       AggregationMethod = (if AggregationMethod c = [] then ''sum'' else AggregationMethod c),
       TimeWindow = (if TimeWindow c = 0 then 60 * 1000000000 else TimeWindow c),
       UniqueFields = UniqueFields c,
       Workers = (if Workers c \<le> 0 then 4 else Workers c) \<rparr>
   \<and> (TimestampField c \<noteq> [] \<and> ValueFields c \<noteq> [] \<and> AggregationMethod c \<noteq> [] \<and>
        TimeWindow c \<noteq> 0 \<and> 0 < Workers c \<longrightarrow> config (NewCompressor (Some c)) = c)
   \<and> NewCompressor (Some (config (NewCompressor (Some c)))) = NewCompressor (Some c)
   \<and> config (NewCompressor None) = DefaultConfig"
proof (intro conjI impI)
  show "config (NewCompressor (Some c)) =
     \<lparr> TimestampField = (if TimestampField c = [] then ''timestamp'' else TimestampField c),
       ValueFields = (if ValueFields c = [] then [''value''] else ValueFields c),
       GroupByFields = GroupByFields c,
       AggregationMethod = (if AggregationMethod c = [] then ''sum'' else AggregationMethod c),
       TimeWindow = (if TimeWindow c = 0 then 60 * 1000000000 else TimeWindow c),
       UniqueFields = UniqueFields c,
       Workers = (if Workers c \<le> 0 then 4 else Workers c) \<rparr>"
    unfolding NewCompressor_config resolve_spec_def ..
next
  assume "TimestampField c \<noteq> [] \<and> ValueFields c \<noteq> [] \<and> AggregationMethod c \<noteq> [] \<and>
        TimeWindow c \<noteq> 0 \<and> 0 < Workers c"
  then show "config (NewCompressor (Some c)) = c"
    unfolding NewCompressor_config by (intro resolve_spec_populated) simp_all
next
  show "NewCompressor (Some (config (NewCompressor (Some c)))) = NewCompressor (Some c)"
    by (simp add: NewCompressor_eq resolve_spec_idem)
next
  show "config (NewCompressor None) = DefaultConfig"
    by (rule NewCompressor_None)
qed

theorem NewCompressor_defaults_witness:
  "TimestampField
      \<lparr> TimestampField = ''ts'', ValueFields = [''cpu'', ''mem''], GroupByFields = [''host''],
        AggregationMethod = ''avg'', TimeWindow = 120 * 1000000000, UniqueFields = [],
        Workers = 2 \<rparr> \<noteq> []
   \<and> ValueFields
      \<lparr> TimestampField = ''ts'', ValueFields = [''cpu'', ''mem''], GroupByFields = [''host''],
        AggregationMethod = ''avg'', TimeWindow = 120 * 1000000000, UniqueFields = [],
        Workers = 2 \<rparr> \<noteq> []
   \<and> AggregationMethod
      \<lparr> TimestampField = ''ts'', ValueFields = [''cpu'', ''mem''], GroupByFields = [''host''],
        AggregationMethod = ''avg'', TimeWindow = 120 * 1000000000, UniqueFields = [],
        Workers = 2 \<rparr> \<noteq> []
   \<and> TimeWindow
      \<lparr> TimestampField = ''ts'', ValueFields = [''cpu'', ''mem''], GroupByFields = [''host''],
        AggregationMethod = ''avg'', TimeWindow = 120 * 1000000000, UniqueFields = [],
        Workers = 2 \<rparr> \<noteq> 0
   \<and> 0 < Workers
      \<lparr> TimestampField = ''ts'', ValueFields = [''cpu'', ''mem''], GroupByFields = [''host''],
        AggregationMethod = ''avg'', TimeWindow = 120 * 1000000000, UniqueFields = [],
        Workers = 2 \<rparr>
   \<and> config (NewCompressor (Some
      \<lparr> TimestampField = ''ts'', ValueFields = [''cpu'', ''mem''], GroupByFields = [''host''],
        AggregationMethod = ''avg'', TimeWindow = 120 * 1000000000, UniqueFields = [],
        Workers = 2 \<rparr>)) =
      \<lparr> TimestampField = ''ts'', ValueFields = [''cpu'', ''mem''], GroupByFields = [''host''],
        AggregationMethod = ''avg'', TimeWindow = 120 * 1000000000, UniqueFields = [],
        Workers = 2 \<rparr>"
proof -
  let ?c = "\<lparr> TimestampField = ''ts'', ValueFields = [''cpu'', ''mem''], GroupByFields = [''host''],
        AggregationMethod = ''avg'', TimeWindow = 120 * 1000000000, UniqueFields = [],
        Workers = 2 \<rparr>"
  have h: "TimestampField ?c \<noteq> [] \<and> ValueFields ?c \<noteq> [] \<and> AggregationMethod ?c \<noteq> [] \<and>
        TimeWindow ?c \<noteq> 0 \<and> 0 < Workers ?c"
    by simp
  from NewCompressor_defaults [of ?c] h have "config (NewCompressor (Some ?c)) = ?c"
    by blast
  with h show ?thesis by blast
qed

section \<open>Aggregation\<close>

text \<open>
  C4: for every aggregation method, recognised or not, the aggregate of the empty
  sequence is exactly 0. \<open>aggregate\<close> is a total function and the division of \<open>avg\<close> is
  not reached on the empty sequence.
\<close>

theorem aggregate_empty: "aggregate L c [] = 0"
  by (simp add: aggregate_def)

lemma aggregate_doc_5281:
  "aggregate doc_lib (NewCompressor (Some (DefaultConfig\<lparr>AggregationMethod := m\<rparr>))) [5, 2, 8, 1] =
     (if m = ''avg'' \<or> m = ''mean'' then 4
      else if m = ''min'' then 1
      else if m = ''max'' then 8
      else if m = ''count'' then 4
      else if m = ''first'' then 5
      else if m = ''last'' then 1
      else 16)"
  by (simp add: aggregate_def NewCompressor_config resolve_spec_def DefaultConfig_def
      doc_lib_def Let_def)

text \<open>
  C5: on the values \<open>[5, 2, 8, 1]\<close> the aggregate is 16 for \<open>sum\<close>, 1 for \<open>min\<close>, 8 for
  \<open>max\<close>, 4 for \<open>count\<close>, 5 for \<open>first\<close>, 1 for \<open>last\<close> and 4 for \<open>avg\<close>; and on every
  sequence of values a method name other than \<open>sum\<close>, \<open>avg\<close>, \<open>mean\<close>, \<open>min\<close>, \<open>max\<close>,
  \<open>count\<close>, \<open>first\<close>, \<open>last\<close> gives the result of \<open>sum\<close>.
\<close>

theorem aggregate_methods:
  "aggregate doc_lib (NewCompressor (Some (DefaultConfig\<lparr>AggregationMethod := ''sum''\<rparr>))) [5, 2, 8, 1] = 16
   \<and> aggregate doc_lib (NewCompressor (Some (DefaultConfig\<lparr>AggregationMethod := ''min''\<rparr>))) [5, 2, 8, 1] = 1
   \<and> aggregate doc_lib (NewCompressor (Some (DefaultConfig\<lparr>AggregationMethod := ''max''\<rparr>))) [5, 2, 8, 1] = 8
   \<and> aggregate doc_lib (NewCompressor (Some (DefaultConfig\<lparr>AggregationMethod := ''count''\<rparr>))) [5, 2, 8, 1] = 4
   \<and> aggregate doc_lib (NewCompressor (Some (DefaultConfig\<lparr>AggregationMethod := ''first''\<rparr>))) [5, 2, 8, 1] = 5
   \<and> aggregate doc_lib (NewCompressor (Some (DefaultConfig\<lparr>AggregationMethod := ''last''\<rparr>))) [5, 2, 8, 1] = 1
   \<and> aggregate doc_lib (NewCompressor (Some (DefaultConfig\<lparr>AggregationMethod := ''avg''\<rparr>))) [5, 2, 8, 1] = 4
   \<and> (AggregationMethod (config c) \<notin>
         {''sum'', ''avg'', ''mean'', ''min'', ''max'', ''count'', ''first'', ''last''} \<longrightarrow>
       aggregate L c values =
       aggregate L (c\<lparr>config := (config c)\<lparr>AggregationMethod := ''sum''\<rparr>\<rparr>) values)"
proof (intro conjI impI)
  assume "AggregationMethod (config c) \<notin>
         {''sum'', ''avg'', ''mean'', ''min'', ''max'', ''count'', ''first'', ''last''}"
  then show "aggregate L c values =
       aggregate L (c\<lparr>config := (config c)\<lparr>AggregationMethod := ''sum''\<rparr>\<rparr>) values"
    by (simp add: aggregate_def Let_def)
qed (simp_all add: aggregate_doc_5281)

theorem aggregate_methods_witness:
  "''unknown'' \<notin> {''sum'', ''avg'', ''mean'', ''min'', ''max'', ''count'', ''first'', ''last''}
   \<and> aggregate doc_lib (NewCompressor (Some (DefaultConfig\<lparr>AggregationMethod := ''unknown''\<rparr>)))
        [5, 2, 8, 1] = 16"
proof -
  let ?c = "NewCompressor (Some (DefaultConfig\<lparr>AggregationMethod := ''unknown''\<rparr>))"
  have m: "AggregationMethod (config ?c) = ''unknown''"
    by (simp add: NewCompressor_config resolve_spec_def)
  have s: "?c\<lparr>config := (config ?c)\<lparr>AggregationMethod := ''sum''\<rparr>\<rparr> =
           NewCompressor (Some (DefaultConfig\<lparr>AggregationMethod := ''sum''\<rparr>))"
    by (simp add: NewCompressor_eq resolve_spec_def DefaultConfig_def)
  have h: "AggregationMethod (config ?c) \<notin>
         {''sum'', ''avg'', ''mean'', ''min'', ''max'', ''count'', ''first'', ''last''}"
    unfolding m by simp
  from aggregate_methods [of ?c doc_lib "[5, 2, 8, 1]"] h
  have "aggregate doc_lib ?c [5, 2, 8, 1] =
        aggregate doc_lib (?c\<lparr>config := (config ?c)\<lparr>AggregationMethod := ''sum''\<rparr>\<rparr>) [5, 2, 8, 1]"
    by blast
  then show ?thesis
    unfolding s by (simp add: aggregate_doc_5281)
qed

section \<open>Input that is not an array\<close>

text \<open>
  C6: when the decoded top-level value of the payload is not an array, \<open>CompressJSON\<close>
  returns the input format error, and so no output at all.
\<close>

theorem CompressJSON_not_array:
  "\<not> IsArray L (ParseBytes L data) \<Longrightarrow> CompressJSON L c data = Inl InputFormatError"
  by (simp add: CompressJSON_def)

theorem CompressJSON_not_array_witness:
  "\<not> IsArray doc_lib (ParseBytes doc_lib (JObj [(''not'', JStr ''array'')])) \<and>
   CompressJSON doc_lib (NewCompressor None) (JObj [(''not'', JStr ''array'')])
     = Inl InputFormatError"
proof -
  have h: "\<not> IsArray doc_lib (ParseBytes doc_lib (JObj [(''not'', JStr ''array'')]))"
    by (simp add: doc_lib_def doc_IsArray_def)
  from h CompressJSON_not_array [OF h, of "NewCompressor None"] show ?thesis
    by simp
qed

section \<open>Evaluation on documents\<close>

lemmas doc_eval =
  doc_lib_def doc_IsArray_def doc_IsObject_def doc_ForEach_def doc_Get_def doc_Int_def
  doc_String_def doc_Float_def doc_Marshal_def json_of_iface_def trunc_def

lemmas engine_eval =
  CompressJSON_def outputs_def scan_def callback_def Int_r_def window_def windowSec_def
  go_div_def signed_divide_int_def groupKey_def key_fields_def Sprintf_d_def digits10.simps
  new_group_def tag_fields_def append_values_def emit_def emit_timestamp_def value_name_def
  aggregate_def Let_def

section \<open>Records without a timestamp\<close>

lemma callback_skip: "no_timestamp L c val \<Longrightarrow> callback L c groups val = groups"
  by (simp add: no_timestamp_def callback_def Int_r_def split: option.splits)

lemma foldl_callback_filter:
  "foldl (callback L c) groups (filter (\<lambda>v. \<not> (IsObject L v \<and> no_timestamp L c v)) elems) =
   foldl (callback L c) groups elems"
  by (induction elems arbitrary: groups) (auto simp: callback_skip)

text \<open>
  C7: an array element whose timestamp field is absent, or reads as the integer zero,
  leaves the map of groups as it was; and deleting every such object from the array
  leaves the result of \<open>CompressJSON\<close> unchanged, so the record reaches no group and no
  aggregate, and its presence is not an error.
\<close>

theorem skipped_records:
  "(no_timestamp L c val \<longrightarrow> callback L c groups val = groups) \<and>
   (IsArray L (ParseBytes L data) \<and> IsArray L (ParseBytes L data') \<and>
    ForEach L (ParseBytes L data') =
      filter (\<lambda>v. \<not> (IsObject L v \<and> no_timestamp L c v)) (ForEach L (ParseBytes L data)) \<longrightarrow>
    CompressJSON L c data' = CompressJSON L c data)"
proof (intro conjI impI)
  assume "no_timestamp L c val"
  then show "callback L c groups val = groups" by (rule callback_skip)
next
  assume a: "IsArray L (ParseBytes L data) \<and> IsArray L (ParseBytes L data') \<and>
    ForEach L (ParseBytes L data') =
      filter (\<lambda>v. \<not> (IsObject L v \<and> no_timestamp L c v)) (ForEach L (ParseBytes L data))"
  then have "scan L c (ForEach L (ParseBytes L data')) = scan L c (ForEach L (ParseBytes L data))"
    unfolding scan_def by (simp only: foldl_callback_filter)
  then have "outputs L c (ParseBytes L data') = outputs L c (ParseBytes L data)"
    by (simp add: outputs_def)
  with a show "CompressJSON L c data' = CompressJSON L c data"
    by (simp add: CompressJSON_def)
qed

theorem skipped_records_witness:
  "no_timestamp doc_lib (NewCompressor None) (JObj [(''value'', JNum 10)])
   \<and> no_timestamp doc_lib (NewCompressor None) (JObj [(''timestamp'', JNum 0), (''value'', JNum 30)])
   \<and> callback doc_lib (NewCompressor None) [] (JObj [(''value'', JNum 10)]) = []
   \<and> CompressJSON doc_lib (NewCompressor None)
        (JArr [JObj [(''timestamp'', JNum 1000), (''value'', JNum 20)]]) =
      CompressJSON doc_lib (NewCompressor None)
        (JArr [JObj [(''value'', JNum 10)],
               JObj [(''timestamp'', JNum 1000), (''value'', JNum 20)],
               JObj [(''timestamp'', JNum 0), (''value'', JNum 30)]])
   \<and> CompressJSON doc_lib (NewCompressor None)
        (JArr [JObj [(''value'', JNum 10)],
               JObj [(''timestamp'', JNum 1000), (''value'', JNum 20)],
               JObj [(''timestamp'', JNum 0), (''value'', JNum 30)]]) =
      Inr (JArr [JObj [(''timestamp'', JNum 1000), (''value'', JNum 20)]])"
proof -
  let ?c = "NewCompressor None"
  let ?a = "JObj [(''value'', JNum 10)]"
  let ?b = "JObj [(''timestamp'', JNum 1000), (''value'', JNum 20)]"
  let ?z = "JObj [(''timestamp'', JNum 0), (''value'', JNum 30)]"
  have na: "no_timestamp doc_lib ?c ?a"
    by (simp add: no_timestamp_def NewCompressor_None DefaultConfig_def doc_eval)
  have nz: "no_timestamp doc_lib ?c ?z"
    by (simp add: no_timestamp_def NewCompressor_None DefaultConfig_def doc_eval)
  have nb: "\<not> no_timestamp doc_lib ?c ?b"
    by (simp add: no_timestamp_def NewCompressor_None DefaultConfig_def doc_eval)
  have arr: "IsArray doc_lib (ParseBytes doc_lib (JArr [?a, ?b, ?z]))"
            "IsArray doc_lib (ParseBytes doc_lib (JArr [?b]))"
    by (simp_all add: doc_eval)
  have flt: "ForEach doc_lib (ParseBytes doc_lib (JArr [?b])) =
      filter (\<lambda>v. \<not> (IsObject doc_lib v \<and> no_timestamp doc_lib ?c v))
        (ForEach doc_lib (ParseBytes doc_lib (JArr [?a, ?b, ?z])))"
    using na nz nb by (simp add: doc_lib_def doc_ForEach_def doc_IsObject_def)
  from skipped_records [of doc_lib ?c ?a "[]" "JArr [?a, ?b, ?z]" "JArr [?b]"] na arr flt
  have "callback doc_lib ?c [] ?a = []"
    and "CompressJSON doc_lib ?c (JArr [?b]) = CompressJSON doc_lib ?c (JArr [?a, ?b, ?z])"
    by blast+
  moreover have "CompressJSON doc_lib ?c (JArr [?a, ?b, ?z]) = Inr (JArr [?b])"
    by (simp add: NewCompressor_None DefaultConfig_def Minute_def Second_def engine_eval doc_eval)
  ultimately show ?thesis using na nz by simp
qed

section \<open>Index alignment of the batch runner\<close>

lemma length_worker: "length (worker L c batches results idx) = length results"
  by (simp add: worker_def split: sum.splits)

lemma length_foldl_worker: "length (foldl (worker L c batches) results order) = length results"
  by (induction order arbitrary: results) (simp_all add: length_worker)

lemma nth_foldl_worker:
  "i < length results \<Longrightarrow> length results = length batches \<Longrightarrow>
   foldl (worker L c batches) results order ! i =
     (if i \<in> set order then
        (case CompressJSON L c (batches ! i) of Inr b \<Rightarrow> Some b | Inl e \<Rightarrow> results ! i)
      else results ! i)"
proof (induction order arbitrary: results)
  case Nil
  then show ?case by simp
next
  case (Cons idx order)
  have len: "length (worker L c batches results idx) = length results"
    by (rule length_worker)
  have step: "worker L c batches results idx ! i =
      (if i = idx then (case CompressJSON L c (batches ! i) of Inr b \<Rightarrow> Some b | Inl e \<Rightarrow> results ! i)
       else results ! i)"
    using Cons.prems by (simp add: worker_def split: sum.splits)
  show ?case
    using Cons.IH [of "worker L c batches results idx"] Cons.prems len step
    by (auto split: sum.splits)
qed

text \<open>
  C8: for a compressor made by \<open>NewCompressor\<close> and every order in which the goroutines
  finish, \<open>CompressBatch\<close> returns; the result has the length of the batch; slot \<open>i\<close>
  holds the payload \<open>CompressJSON\<close> returns for item \<open>i\<close>, and is empty exactly when
  \<open>CompressJSON\<close> fails on item \<open>i\<close>, whatever happens to the other items.
\<close>

theorem CompressBatch_aligned:
  assumes "mset order = mset [0..<length batches]"
  shows "\<exists>results. CompressBatch L (NewCompressor cfg) order batches = Some results \<and>
           length results = length batches \<and>
           (\<forall>i<length batches. results ! i =
              (case CompressJSON L (NewCompressor cfg) (batches ! i) of
                 Inr compressed \<Rightarrow> Some compressed | Inl err \<Rightarrow> None))"
proof -
  let ?c = "NewCompressor cfg"
  let ?rs = "foldl (worker L ?c batches) (replicate (length batches) None) order"
  have w: "0 < Workers (config ?c)" by (rule Workers_NewCompressor)
  then have "CompressBatch L ?c order batches = Some ?rs"
    by (simp add: CompressBatch_def)
  moreover have "length ?rs = length batches"
    by (simp add: length_foldl_worker)
  moreover have "set order = {0..<length batches}"
    using mset_eq_setD [OF assms] by simp
  then have "\<forall>i<length batches. ?rs ! i =
              (case CompressJSON L ?c (batches ! i) of
                 Inr compressed \<Rightarrow> Some compressed | Inl err \<Rightarrow> None)"
    by (auto simp: nth_foldl_worker split: sum.splits)
  ultimately show ?thesis by blast
qed

theorem CompressBatch_aligned_witness:
  "mset [2, 0, 1] =
     mset [0..<length [JArr [JObj [(''timestamp'', JNum 1000), (''value'', JNum 20)]],
                       JStr ''invalid json'', JArr []]]
   \<and> CompressBatch doc_lib (NewCompressor None) [2, 0, 1]
        [JArr [JObj [(''timestamp'', JNum 1000), (''value'', JNum 20)]],
         JStr ''invalid json'', JArr []] =
      Some [Some (JArr [JObj [(''timestamp'', JNum 1000), (''value'', JNum 20)]]), None,
            Some (JArr [])]"
proof -
  let ?c = "NewCompressor None"
  let ?b0 = "JArr [JObj [(''timestamp'', JNum 1000), (''value'', JNum 20)]]"
  let ?bs = "[?b0, JStr ''invalid json'', JArr []]"
  have up: "[0..<length ?bs] = [0, 1, 2]"
    by (simp add: upt_rec)
  have h: "mset [2, 0, 1] = mset [0..<length ?bs]"
    unfolding up by simp
  have r0: "CompressJSON doc_lib ?c ?b0 = Inr ?b0"
    by (simp add: NewCompressor_None DefaultConfig_def Minute_def Second_def engine_eval doc_eval)
  have r1: "CompressJSON doc_lib ?c (JStr ''invalid json'') = Inl InputFormatError"
    by (simp add: CompressJSON_def doc_eval)
  have r2: "CompressJSON doc_lib ?c (JArr []) = Inr (JArr [])"
    by (simp add: CompressJSON_def outputs_def scan_def doc_eval)
  from CompressBatch_aligned [OF h, of doc_lib None]
  obtain results where res: "CompressBatch doc_lib ?c [2, 0, 1] ?bs = Some results"
      and len: "length results = 3"
      and slot: "\<forall>i<3. results ! i =
        (case CompressJSON doc_lib ?c (?bs ! i) of Inr compressed \<Rightarrow> Some compressed | Inl err \<Rightarrow> None)"
    by auto
  have "results ! 0 = Some ?b0" using slot r0 by simp
  moreover have "results ! 1 = None" using slot r1 by simp
  moreover have "results ! 2 = Some (JArr [])" using slot r2 by simp
  ultimately have "results = [Some ?b0, None, Some (JArr [])]"
    using len by (intro nth_equalityI) (auto simp: less_Suc_eq numeral_3_eq_3 numeral_2_eq_2)
  with res h show ?thesis by simp
qed

section \<open>Records without a value\<close>

lemma append_values_absent:
  "\<forall>f\<in>set fs. Get L val f = None \<Longrightarrow>
   foldl (\<lambda>vs field. case Get L val field of Some v \<Rightarrow> vs @ [Float_of L v] | None \<Rightarrow> vs) vs fs = vs"
  by (induction fs arbitrary: vs) simp_all

text \<open>
  C10: an object with a nonzero timestamp on which no configured value field exists
  still creates its group, or joins the one under its key: the group's count goes up by
  one, its first and last timestamps take the record's into account, and its values stay
  as they were. So \<open>CompressJSON\<close> emits, for the one record \<open>{"timestamp": 1000}\<close>, a
  record with the aggregate 0 although the group has no value.
\<close>

theorem record_without_values:
  "(IsObject L val \<and> Int_r L (Get L val (TimestampField (config c))) = t \<and> t \<noteq> 0 \<and>
    (\<forall>f\<in>set (ValueFields (config c)). Get L val f = None) \<longrightarrow>
    (\<exists>g. map_of (callback L c groups val) (groupKey L c val (window L c t)) = Some g \<and>
       (case map_of groups (groupKey L c val (window L c t)) of
          None \<Rightarrow> Values g = [] \<and> Count g = 1 \<and> FirstTime g = t \<and> LastTime g = t
        | Some g0 \<Rightarrow>
            Values g = Values g0 \<and> Count g = Count g0 + 1 \<and>
            FirstTime g = (if t <s FirstTime g0 then t else FirstTime g0) \<and>
            LastTime g = (if LastTime g0 <s t then t else LastTime g0))))
   \<and> scan doc_lib (NewCompressor None) [JObj [(''timestamp'', JNum 1000)]] =
       [(''window:960'',
         \<lparr> Window = 960, Tags = [], Values = [], Count = 1, FirstTime = 1000, LastTime = 1000 \<rparr>)]
   \<and> CompressJSON doc_lib (NewCompressor None) (JArr [JObj [(''timestamp'', JNum 1000)]]) =
       Inr (JArr [JObj [(''timestamp'', JNum 1000), (''value'', JNum 0)]])"
proof (intro conjI impI)
  assume a: "IsObject L val \<and> Int_r L (Get L val (TimestampField (config c))) = t \<and> t \<noteq> 0 \<and>
    (\<forall>f\<in>set (ValueFields (config c)). Get L val f = None)"
  then have av: "\<And>vs. append_values L c val vs = vs"
    by (simp add: append_values_def append_values_absent)
  from a show "\<exists>g. map_of (callback L c groups val) (groupKey L c val (window L c t)) = Some g \<and>
       (case map_of groups (groupKey L c val (window L c t)) of
          None \<Rightarrow> Values g = [] \<and> Count g = 1 \<and> FirstTime g = t \<and> LastTime g = t
        | Some g0 \<Rightarrow>
            Values g = Values g0 \<and> Count g = Count g0 + 1 \<and>
            FirstTime g = (if t <s FirstTime g0 then t else FirstTime g0) \<and>
            LastTime g = (if LastTime g0 <s t then t else LastTime g0))"
    by (cases "map_of groups (groupKey L c val (window L c t))")
       (auto simp: callback_def Let_def av update_conv' new_group_def)
next
  show "scan doc_lib (NewCompressor None) [JObj [(''timestamp'', JNum 1000)]] =
       [(''window:960'',
         \<lparr> Window = 960, Tags = [], Values = [], Count = 1, FirstTime = 1000, LastTime = 1000 \<rparr>)]"
    by (simp add: NewCompressor_None DefaultConfig_def Minute_def Second_def engine_eval doc_eval)
next
  show "CompressJSON doc_lib (NewCompressor None) (JArr [JObj [(''timestamp'', JNum 1000)]]) =
       Inr (JArr [JObj [(''timestamp'', JNum 1000), (''value'', JNum 0)]])"
    by (simp add: NewCompressor_None DefaultConfig_def Minute_def Second_def engine_eval doc_eval)
qed

theorem record_without_values_witness:
  "IsObject doc_lib (JObj [(''timestamp'', JNum 1010)])
   \<and> Int_r doc_lib (Get doc_lib (JObj [(''timestamp'', JNum 1010)])
        (TimestampField (config (NewCompressor None)))) = 1010
   \<and> (1010 :: int64) \<noteq> 0
   \<and> ValueFields (config (NewCompressor None)) = [''value'']
   \<and> Get doc_lib (JObj [(''timestamp'', JNum 1010)]) ''value'' = None
   \<and> (\<exists>g. map_of (callback doc_lib (NewCompressor None)
                [(''window:960'',
                  \<lparr> Window = 960, Tags = [], Values = [20], Count = 1, FirstTime = 1000,
                    LastTime = 1000 \<rparr>)]
                (JObj [(''timestamp'', JNum 1010)])) ''window:960'' = Some g
          \<and> Values g = [20] \<and> Count g = 2 \<and> FirstTime g = 1000 \<and> LastTime g = 1010)"
proof -
  let ?c = "NewCompressor None"
  let ?v = "JObj [(''timestamp'', JNum 1010)]"
  let ?gs = "[(''window:960'',
      \<lparr> Window = 960, Tags = [], Values = [20::real], Count = 1, FirstTime = 1000,
        LastTime = 1000 \<rparr>)]"
  have h1: "IsObject doc_lib ?v" by (simp add: doc_eval)
  have h2: "Int_r doc_lib (Get doc_lib ?v (TimestampField (config ?c))) = 1010"
    by (simp add: Int_r_def NewCompressor_None DefaultConfig_def doc_eval)
  have h3: "(1010 :: int64) \<noteq> 0" by simp
  have h4: "\<forall>f\<in>set (ValueFields (config ?c)). Get doc_lib ?v f = None"
    by (simp add: NewCompressor_None DefaultConfig_def doc_eval)
  have k: "groupKey doc_lib ?c ?v (window doc_lib ?c 1010) = ''window:960''"
    by (simp add: NewCompressor_None DefaultConfig_def Minute_def Second_def engine_eval doc_eval)
  from record_without_values [of doc_lib ?v ?c 1010 ?gs] h1 h2 h3 h4
  have "\<exists>g. map_of (callback doc_lib ?c ?gs ?v) (groupKey doc_lib ?c ?v (window doc_lib ?c 1010)) = Some g \<and>
       (case map_of ?gs (groupKey doc_lib ?c ?v (window doc_lib ?c 1010)) of
          None \<Rightarrow> Values g = [] \<and> Count g = 1 \<and> FirstTime g = 1010 \<and> LastTime g = 1010
        | Some g0 \<Rightarrow>
            Values g = Values g0 \<and> Count g = Count g0 + 1 \<and>
            FirstTime g = (if 1010 <s FirstTime g0 then 1010 else FirstTime g0) \<and>
            LastTime g = (if LastTime g0 <s 1010 then 1010 else LastTime g0))"
    by blast
  then have "\<exists>g. map_of (callback doc_lib ?c ?gs ?v) ''window:960'' = Some g
          \<and> Values g = [20] \<and> Count g = 2 \<and> FirstTime g = 1000 \<and> LastTime g = 1010"
    unfolding k by simp
  moreover have "ValueFields (config ?c) = [''value'']"
    by (simp add: NewCompressor_None DefaultConfig_def)
  moreover have "Get doc_lib ?v ''value'' = None"
    by (simp add: doc_eval)
  ultimately show ?thesis using h1 h2 h3 by blast
qed

section \<open>The window boundary\<close>

lemma sdiv_mult_bounds:
  fixes t w :: int
  shows "(0 \<le> t \<longrightarrow> 0 \<le> (t sdiv w) * w \<and> (t sdiv w) * w \<le> t) \<and>
         (t \<le> 0 \<longrightarrow> t \<le> (t sdiv w) * w \<and> (t sdiv w) * w \<le> 0)"
proof -
  have "(\<bar>t\<bar> div \<bar>w\<bar>) * \<bar>w\<bar> = \<bar>t\<bar> - \<bar>t\<bar> mod \<bar>w\<bar>"
    by (simp add: minus_mod_eq_div_mult)
  moreover have "0 \<le> \<bar>t\<bar> mod \<bar>w\<bar>"
    by (cases "w = 0") simp_all
  moreover have "0 \<le> (\<bar>t\<bar> div \<bar>w\<bar>) * \<bar>w\<bar>"
    by (cases "w = 0") (simp_all add: pos_imp_zdiv_nonneg_iff)
  ultimately have m: "0 \<le> (\<bar>t\<bar> div \<bar>w\<bar>) * \<bar>w\<bar>" "(\<bar>t\<bar> div \<bar>w\<bar>) * \<bar>w\<bar> \<le> \<bar>t\<bar>"
    by simp_all
  have k: "(t sdiv w) * w = sgn t * ((\<bar>t\<bar> div \<bar>w\<bar>) * \<bar>w\<bar>)"
    by (simp add: signed_divide_int_def abs_sgn mult.assoc mult.left_commute mult.commute)
  show ?thesis
    unfolding k using m by (cases "t = 0"; cases "0 < t") (auto simp: sgn_if)
qed

lemma sint_window:
  "sint (go_div t w * w) = (sint t sdiv sint w) * sint w"
proof -
  let ?k = "(sint t sdiv sint w) * sint w"
  have b: "- (2 ^ 63) \<le> ?k" "?k < 2 ^ 63"
    using sdiv_mult_bounds [of "sint t" "sint w"] sint_ge [of t] sint_lt [of t]
    by (cases "0 \<le> sint t"; simp)+
  have "go_div t w * w = word_of_int ?k"
    by (simp add: go_div_def)
  also have "sint (word_of_int ?k :: int64) = signed_take_bit (LENGTH(64) - 1) ?k"
    by (rule sint_sbintrunc')
  also have "\<dots> = ?k"
    by (rule signed_take_bit_int_eq_self) (use b in simp_all)
  finally show ?thesis .
qed

lemma sdiv_pos: "0 \<le> (t::int) \<Longrightarrow> 0 < w \<Longrightarrow> t sdiv w = t div w"
  by (simp add: signed_divide_int_def sgn_if)

text \<open>
  C2, as the code computes it: the window boundary of a timestamp \<open>t\<close> is
  \<open>(t / windowSec) * windowSec\<close> with Go's division, which truncates towards zero, and
  it is computed without overflow; it is \<open>\<lfloor>t / windowSec\<rfloor> * windowSec\<close> when \<open>t\<close> and
  \<open>windowSec\<close> are positive. \<open>windowSec\<close> is the configured window in whole seconds, or
  60 when that is zero.
\<close>

theorem window_boundary:
  "windowSec L c =
     (if to_int64 L (Seconds L (TimeWindow (config c))) = 0 then 60
      else to_int64 L (Seconds L (TimeWindow (config c))))
   \<and> sint (window L c t) = (sint t sdiv sint (windowSec L c)) * sint (windowSec L c)
   \<and> (0 <s t \<and> 0 <s windowSec L c \<longrightarrow>
        sint (window L c t) = (sint t div sint (windowSec L c)) * sint (windowSec L c))"
proof (intro conjI impI)
  show "windowSec L c =
     (if to_int64 L (Seconds L (TimeWindow (config c))) = 0 then 60
      else to_int64 L (Seconds L (TimeWindow (config c))))"
    by (simp add: windowSec_def Let_def)
next
  show "sint (window L c t) = (sint t sdiv sint (windowSec L c)) * sint (windowSec L c)"
    unfolding window_def by (rule sint_window)
next
  assume "0 <s t \<and> 0 <s windowSec L c"
  then have "0 \<le> sint t" "0 < sint (windowSec L c)"
    by (simp_all add: word_sless_alt)
  then show "sint (window L c t) = (sint t div sint (windowSec L c)) * sint (windowSec L c)"
    unfolding window_def sint_window by (simp add: sdiv_pos)
qed

theorem window_boundary_witness:
  "0 <s (1000 :: int64) \<and> 0 <s windowSec doc_lib (NewCompressor None) \<and>
   windowSec doc_lib (NewCompressor None) = 60 \<and>
   windowSec doc_lib (NewCompressor (Some (DefaultConfig\<lparr>TimeWindow := 500000000\<rparr>))) = 60 \<and>
   sint (window doc_lib (NewCompressor None) 1000) = 960"
proof -
  have w: "windowSec doc_lib (NewCompressor None) = 60"
    by (simp add: NewCompressor_None DefaultConfig_def Minute_def Second_def windowSec_def doc_eval)
  have s: "windowSec doc_lib (NewCompressor (Some (DefaultConfig\<lparr>TimeWindow := 500000000\<rparr>))) = 60"
    by (simp add: NewCompressor_config resolve_spec_def DefaultConfig_def windowSec_def doc_eval)
  have h: "0 <s (1000 :: int64) \<and> 0 <s windowSec doc_lib (NewCompressor None)"
    unfolding w by (simp add: word_sless_alt)
  from window_boundary [of doc_lib "NewCompressor None" 1000] h
  have "sint (window doc_lib (NewCompressor None) 1000) =
        (sint (1000 :: int64) div sint (windowSec doc_lib (NewCompressor None)))
          * sint (windowSec doc_lib (NewCompressor None))"
    by blast
  then have "sint (window doc_lib (NewCompressor None) 1000) = 960"
    unfolding w by simp
  with h w s show ?thesis by simp
qed

text \<open>
  With the floor of the quotient the equation fails on a negative timestamp: the record
  \<open>{"timestamp": -1000, "value": 100}\<close> goes to the window \<open>-960\<close> under the default
  window of 60 seconds, and \<open>\<lfloor>-1000 / 60\<rfloor> * 60\<close> is \<open>-1020\<close>.
\<close>

theorem window_floor_counterexample:
  "scan doc_lib (NewCompressor None) [JObj [(''timestamp'', JNum (- 1000)), (''value'', JNum 100)]] =
     [(''window:-960'',
       \<lparr> Window = - 960, Tags = [], Values = [100], Count = 1, FirstTime = - 1000,
         LastTime = - 1000 \<rparr>)]
   \<and> windowSec doc_lib (NewCompressor None) = 60
   \<and> sint (window doc_lib (NewCompressor None) (- 1000)) = - 960
   \<and> \<lfloor>real_of_int (sint (- 1000 :: int64)) /
        real_of_int (sint (windowSec doc_lib (NewCompressor None)))\<rfloor>
       * sint (windowSec doc_lib (NewCompressor None)) = - 1020"
  by (simp add: NewCompressor_None DefaultConfig_def Minute_def Second_def engine_eval doc_eval)

section \<open>The emitted record\<close>








section \<open>The group key\<close>

text \<open>
  Records whose group-by tuples and unique tuples agree, presence included, get the same
  key in a window.
\<close>

lemma key_fields_cong:
  "field_tuple L val flds = field_tuple L val' flds \<Longrightarrow>
   key_fields L val pre k flds = key_fields L val' pre k flds"
proof (induction flds arbitrary: k)
  case Nil
  then show ?case by (simp add: key_fields_def)
next
  case (Cons f flds)
  from Cons.prems have hd: "map_option (String_of L) (Get L val f) = map_option (String_of L) (Get L val' f)"
    and tl: "field_tuple L val flds = field_tuple L val' flds"
    by (simp_all add: field_tuple_def)
  from hd have step: "(case Get L val f of Some v \<Rightarrow> k @ '';'' @ pre @ f @ '':'' @ String_of L v | None \<Rightarrow> k) =
      (case Get L val' f of Some v \<Rightarrow> k @ '';'' @ pre @ f @ '':'' @ String_of L v | None \<Rightarrow> k)"
    by (cases "Get L val f"; cases "Get L val' f") simp_all
  show ?case
    using Cons.IH [OF tl] step by (simp add: key_fields_def)
qed

lemma same_components_same_key:
  assumes "field_tuple L val (GroupByFields (config c)) = field_tuple L val' (GroupByFields (config c))"
    and "field_tuple L val (UniqueFields (config c)) = field_tuple L val' (UniqueFields (config c))"
  shows "groupKey L c val w = groupKey L c val' w"
  unfolding groupKey_def
  by (simp add: key_fields_cong [OF assms(1)] key_fields_cong [OF assms(2)])

text \<open>
  C1: the key does not separate records whose tuples differ when a value contains the
  key's own delimiters. With the unique fields \<open>customer_id\<close> and \<open>region\<close>, the record
  with \<open>customer_id = "c1"\<close> and \<open>region = "eu"\<close> and the record with
  \<open>customer_id = "c1;unique_region:eu"\<close> and no \<open>region\<close> have different unique tuples
  and the same key, and the scan puts them into one group.
\<close>

theorem groupKey_collision:
  "field_tuple doc_lib
     (JObj [(''ts'', JNum 1000), (''val'', JNum 1), (''customer_id'', JStr ''c1''),
            (''region'', JStr ''eu'')])
     [''customer_id'', ''region''] = [Some ''c1'', Some ''eu'']
   \<and> field_tuple doc_lib
     (JObj [(''ts'', JNum 1000), (''val'', JNum 2),
            (''customer_id'', JStr ''c1;unique_region:eu'')])
     [''customer_id'', ''region''] = [Some ''c1;unique_region:eu'', None]
   \<and> scan doc_lib
     (NewCompressor (Some
       \<lparr> TimestampField = ''ts'', ValueFields = [''val''], GroupByFields = [],
         AggregationMethod = ''sum'', TimeWindow = 60 * 1000000000,
         UniqueFields = [''customer_id'', ''region''], Workers = 4 \<rparr>))
     [JObj [(''ts'', JNum 1000), (''val'', JNum 1), (''customer_id'', JStr ''c1''),
            (''region'', JStr ''eu'')],
      JObj [(''ts'', JNum 1000), (''val'', JNum 2),
            (''customer_id'', JStr ''c1;unique_region:eu'')]] =
     [(''window:960;unique_customer_id:c1;unique_region:eu'',
       \<lparr> Window = 960, Tags = [(''customer_id'', ''c1''), (''region'', ''eu'')],
         Values = [1, 2], Count = 2, FirstTime = 1000, LastTime = 1000 \<rparr>)]"
  by (simp add: field_tuple_def NewCompressor_config resolve_spec_def engine_eval doc_eval)

end
